theory Spec2Isabelle
  imports Main "HOL-Library.Word" "HOL-Library.Multiset"
begin

section \<open>Strings\<close>

text \<open>
  File contents are JavaScript strings: sequences of UTF-16 code units. The three regular
  expressions of \<^verbatim>\<open>parseJsonc\<close> have no \<^verbatim>\<open>u\<close> flag, so they work on
  code units, and their character classes are sets of code units.

  Paths, file names and messages are only concatenated, compared, split at a dot and tested
  for a suffix. They are kept as \<^typ>\<open>string\<close>.
\<close>

type_synonym jschar = "16 word"
type_synonym jsstring = "jschar list"

definition js :: "string \<Rightarrow> jsstring" where
  "js s = map of_char s"

text \<open>ECMAScript \<^verbatim>\<open>LineTerminator\<close>: LF, CR, LS, PS. The dot of a regular
  expression matches every code unit but these, and \<^verbatim>\<open>$\<close> under the
  \<^verbatim>\<open>m\<close> flag matches at the end of the input and before one of these.\<close>

definition isLineTerminator :: "jschar \<Rightarrow> bool" where
  "isLineTerminator c \<longleftrightarrow> c = 0x0A \<or> c = 0x0D \<or> c = 0x2028 \<or> c = 0x2029"

text \<open>The class \<^verbatim>\<open>\s\<close>: ECMAScript \<^verbatim>\<open>WhiteSpace\<close> (TAB, VT, FF, ZWNBSP and
  the Unicode category Zs) and \<^verbatim>\<open>LineTerminator\<close>.\<close>

definition isSpace :: "jschar \<Rightarrow> bool" where
  "isSpace c \<longleftrightarrow>
     c = 0x09 \<or> c = 0x0B \<or> c = 0x0C \<or> c = 0xFEFF \<or>
     c = 0x20 \<or> c = 0xA0 \<or> c = 0x1680 \<or> (0x2000 \<le> c \<and> c \<le> 0x200A) \<or>
     c = 0x202F \<or> c = 0x205F \<or> c = 0x3000 \<or> isLineTerminator c"

section \<open>JSONC stripping\<close>

text \<open>
  The three replacements of \<^verbatim>\<open>parseJsonc\<close> in \<^verbatim>\<open>parse-wrangler-config.ts\<close>, each
  as the scan of the text that its regular expression stands for.

  \<^verbatim>\<open>content.replace(/\/\/.*$/gm, "")\<close>: scanning from the left, at each \<^verbatim>\<open>//\<close>
  the greedy \<^verbatim>\<open>.*\<close> takes every code unit up to the next line terminator or the end
  of the input, where \<^verbatim>\<open>$\<close> holds. The match is deleted and the scan goes on at the
  line terminator.
\<close>

fun removeLineComments :: "jsstring \<Rightarrow> jsstring" where
  "removeLineComments (a # b # cs) =
     (if a = 0x2F \<and> b = 0x2F
      then removeLineComments (drop (length (takeWhile (\<lambda>c. \<not> isLineTerminator c) cs)) cs)
      else a # removeLineComments (b # cs))"
| "removeLineComments cs = cs"

text \<open>
  The lazy \<^verbatim>\<open>[\s\S]*?\*\/\<close>: the number of code units before the first
  \<^verbatim>\<open>*/\<close>, if there is one.
\<close>

fun blockCommentEnd :: "jsstring \<Rightarrow> nat option" where
  "blockCommentEnd (a # b # cs) =
     (if a = 0x2A \<and> b = 0x2F then Some 0
      else map_option Suc (blockCommentEnd (b # cs)))"
| "blockCommentEnd cs = None"

text \<open>
  \<^verbatim>\<open>cleaned.replace(/\/\*[\s\S]*?\*\//g, "")\<close>: at each \<^verbatim>\<open>/*\<close> that is
  followed, two code units later or further, by \<^verbatim>\<open>*/\<close>, everything through the first
  such \<^verbatim>\<open>*/\<close> is deleted. A \<^verbatim>\<open>/*\<close> that is never closed does not match and
  stays.
\<close>

fun removeBlockComments :: "jsstring \<Rightarrow> jsstring" where
  "removeBlockComments (a # b # cs) =
     (if a = 0x2F \<and> b = 0x2A
      then (case blockCommentEnd cs of
              Some n \<Rightarrow> removeBlockComments (drop (n + 2) cs)
            | None \<Rightarrow> a # removeBlockComments (b # cs))
      else a # removeBlockComments (b # cs))"
| "removeBlockComments cs = cs"

text \<open>
  \<^verbatim>\<open>cleaned.replace(/,(\s*[}\]])/g, "$1")\<close>: a comma followed by white space and then
  a closing brace or bracket is replaced by the white space and the closing character (group 1).
  No code unit of \<^verbatim>\<open>\s\<close> is a brace or a bracket, so the greedy \<^verbatim>\<open>\s*\<close>
  matches exactly when the first code unit after the longest run of white space closes.
  The scan goes on after the closing character.
\<close>

fun removeTrailingCommas :: "jsstring \<Rightarrow> jsstring" where
  "removeTrailingCommas [] = []"
| "removeTrailingCommas (c # cs) =
     (if c = 0x2C
      then (let ws = takeWhile isSpace cs in
            case drop (length ws) cs of
              [] \<Rightarrow> c # removeTrailingCommas cs
            | b # _ \<Rightarrow>
                if b = 0x7D \<or> b = 0x5D
                then ws @ b # removeTrailingCommas (drop (length ws + 1) cs)
                else c # removeTrailingCommas cs)
      else c # removeTrailingCommas cs)"

text \<open>
  \<^verbatim>\<open>parseJsonc\<close> of \<^verbatim>\<open>parse-wrangler-config.ts\<close>. \<^verbatim>\<open>JSON.parse\<close> is the
  language's own parser: it is a parameter, which returns a document or throws.
\<close>

definition cleaned_wrangler :: "jsstring \<Rightarrow> jsstring" where
  "cleaned_wrangler content =
     removeTrailingCommas (removeBlockComments (removeLineComments content))"

definition parseJsonc_wrangler :: "(jsstring \<Rightarrow> 'e + 'doc) \<Rightarrow> jsstring \<Rightarrow> 'e + 'doc" where
  "parseJsonc_wrangler json_parse content = json_parse (cleaned_wrangler content)"

text \<open>
  \<^verbatim>\<open>parseJsonc\<close> of \<^verbatim>\<open>parse-drizzle-config.ts\<close>: that file has its own copy of the
  function, with its own three regular expressions. They are modelled as they stand there,
  apart from the ones above.
\<close>

fun drizzle_removeLineComments :: "jsstring \<Rightarrow> jsstring" where
  "drizzle_removeLineComments (a # b # cs) =
     (if a = 0x2F \<and> b = 0x2F
      then drizzle_removeLineComments
             (drop (length (takeWhile (\<lambda>c. \<not> isLineTerminator c) cs)) cs)
      else a # drizzle_removeLineComments (b # cs))"
| "drizzle_removeLineComments cs = cs"

fun drizzle_blockCommentEnd :: "jsstring \<Rightarrow> nat option" where
  "drizzle_blockCommentEnd (a # b # cs) =
     (if a = 0x2A \<and> b = 0x2F then Some 0
      else map_option Suc (drizzle_blockCommentEnd (b # cs)))"
| "drizzle_blockCommentEnd cs = None"

fun drizzle_removeBlockComments :: "jsstring \<Rightarrow> jsstring" where
  "drizzle_removeBlockComments (a # b # cs) =
     (if a = 0x2F \<and> b = 0x2A
      then (case drizzle_blockCommentEnd cs of
              Some n \<Rightarrow> drizzle_removeBlockComments (drop (n + 2) cs)
            | None \<Rightarrow> a # drizzle_removeBlockComments (b # cs))
      else a # drizzle_removeBlockComments (b # cs))"
| "drizzle_removeBlockComments cs = cs"

fun drizzle_removeTrailingCommas :: "jsstring \<Rightarrow> jsstring" where
  "drizzle_removeTrailingCommas [] = []"
| "drizzle_removeTrailingCommas (c # cs) =
     (if c = 0x2C
      then (let ws = takeWhile isSpace cs in
            case drop (length ws) cs of
              [] \<Rightarrow> c # drizzle_removeTrailingCommas cs
            | b # _ \<Rightarrow>
                if b = 0x7D \<or> b = 0x5D
                then ws @ b # drizzle_removeTrailingCommas (drop (length ws + 1) cs)
                else c # drizzle_removeTrailingCommas cs)
      else c # drizzle_removeTrailingCommas cs)"

definition cleaned_drizzle :: "jsstring \<Rightarrow> jsstring" where
  "cleaned_drizzle content =
     drizzle_removeTrailingCommas
       (drizzle_removeBlockComments (drizzle_removeLineComments content))"

definition parseJsonc_drizzle :: "(jsstring \<Rightarrow> 'e + 'doc) \<Rightarrow> jsstring \<Rightarrow> 'e + 'doc" where
  "parseJsonc_drizzle json_parse content = json_parse (cleaned_drizzle content)"

section \<open>The data of a run\<close>

text \<open>A thrown value: an \<^verbatim>\<open>Error\<close> with its message, or something that is not an
  instance of \<^verbatim>\<open>Error\<close>.\<close>

datatype exn = Error string | NonError

text \<open>\<^verbatim>\<open>error instanceof Error ? error.message : "Unknown error"\<close>\<close>

definition errorMessage :: "exn \<Rightarrow> string" where
  "errorMessage e = (case e of Error m \<Rightarrow> m | NonError \<Rightarrow> ''Unknown error'')"

text \<open>The interfaces of \<^verbatim>\<open>parse-wrangler-config.ts\<close> and
  \<^verbatim>\<open>parse-drizzle-config.ts\<close>. An optional property is an \<^typ>\<open>'a option\<close>. The
  \<^verbatim>\<open>env\<close> record lists its properties in the order \<^verbatim>\<open>Object.keys\<close>
  enumerates them; of an environment's own record only \<^verbatim>\<open>d1_databases\<close> is read.\<close>

record D1Database =
  binding :: string
  database_name :: string
  database_id :: "string option"

record EnvironmentConfig =
  env_d1_databases :: "D1Database list option"

record WranglerConfig =
  env :: "(string \<times> EnvironmentConfig) list option"
  d1_databases :: "D1Database list option"

record DrizzleConfig =
  out :: "string option"

text \<open>\<^verbatim>\<open>program.opts()\<close>: a boolean flag is \<^verbatim>\<open>true\<close> when it was passed and
  \<^verbatim>\<open>undefined\<close> otherwise.\<close>

record opts =
  local :: bool
  remote :: bool
  dir :: "string option"

record filesystem =
  existsSync :: "string \<Rightarrow> bool"
  readFileSync :: "string \<Rightarrow> exn + jsstring"
  readdirSync :: "string \<Rightarrow> exn + string list"
  statSync_mtime :: "string \<Rightarrow> exn + int"

record 'doc parsers =
  parseToml :: "jsstring \<Rightarrow> exn + 'doc"
  JSON_parse :: "jsstring \<Rightarrow> exn + 'doc"

record picocolors =
  yellow :: "string \<Rightarrow> string"
  magenta :: "string \<Rightarrow> string"
  gray :: "string \<Rightarrow> string"
  blue :: "string \<Rightarrow> string"
  green :: "string \<Rightarrow> string"
  red :: "string \<Rightarrow> string"

record choice =
  label :: string
  val :: string

text \<open>What \<^verbatim>\<open>tryCatch\<close> hands back: \<^verbatim>\<open>data\<close> (\<^const>\<open>None\<close> when it is
  \<^verbatim>\<open>null\<close> or \<^verbatim>\<open>undefined\<close>) and \<^verbatim>\<open>error\<close>.\<close>

record 'a tried =
  data :: "'a option"
  error :: "exn option"

datatype stdio = Inherit | Pipe | Default

text \<open>
  Everything outside the script: the command line, the process, the \<^verbatim>\<open>path\<close>
  functions, the file system, the parsers of the libraries, the user at the prompts and the
  external commands.
  \<^item> \<open>prompt_select msg options initial\<close> and \<open>prompt_confirm msg initial\<close> are
    \<^verbatim>\<open>tryCatch(consola.prompt(msg, {type, options, initial}))\<close>, awaited. The helper
    \<^verbatim>\<open>tryCatch\<close> of \<^verbatim>\<open>utils/try-catch.ts\<close> is not among the sources at hand, so
    the pair of \<^verbatim>\<open>data\<close> and \<^verbatim>\<open>error\<close> it makes of a prompt is taken as it comes.
  \<^item> \<open>import_file filePath\<close> is \<^verbatim>\<open>import(pathToFileURL(filePath).href)\<close> followed
    by \<^verbatim>\<open>module.default || module\<close>.
  \<^item> \<open>execa file args cwd stdio fsys\<close> runs a command on the file system \<open>fsys\<close> and
    resolves with the file system it leaves, or rejects.
  \<^item> \<open>statSync_mtime p\<close> is \<^verbatim>\<open>statSync(p).mtime.getTime()\<close>, in milliseconds.
\<close>

record sys =
  opts :: opts
  cwd :: string
  stdin_isTTY :: bool
  stdout_isTTY :: bool
  resolve :: "string list \<Rightarrow> string"
  join :: "string list \<Rightarrow> string"
  toLowerCase :: "string \<Rightarrow> string"
  fs :: filesystem
  wrangler_parsers :: "WranglerConfig parsers"
  drizzle_parsers :: "DrizzleConfig parsers"
  import_file :: "string \<Rightarrow> exn + DrizzleConfig"
  prompt_select :: "string \<Rightarrow> choice list \<Rightarrow> string option \<Rightarrow> string tried"
  prompt_confirm :: "string \<Rightarrow> bool \<Rightarrow> bool tried"
  execa :: "string \<Rightarrow> string list \<Rightarrow> string \<Rightarrow> stdio \<Rightarrow> filesystem \<Rightarrow> exn + filesystem"
  pc :: picocolors
  format :: "int \<Rightarrow> string \<Rightarrow> string"

text \<open>What a run does that can be seen from outside, in order.\<close>

datatype event =
    ConsoleError string
  | ConsoleWarn string
  | ConsoleLog string
  | ConsolaError string
  | ConsolaErrorWith string exn
  | ConsolaWarn string
  | PromptSelect string "choice list" "string option"
  | PromptConfirm string bool
  | Execa string "string list" string stdio
  | SpinnerStart string
  | SpinnerStop
  | SpinnerSuccess string

text \<open>How the process ends: \<^verbatim>\<open>process.exit(n)\<close> (or the end of the script, status 0),
  or an exception that nothing catches.\<close>

datatype outcome = Exit nat | Uncaught_TypeError | Uncaught exn

text \<open>A part of the script either ends the process or goes on with a value.\<close>

datatype 'a step = Stop "event list" outcome | Cont "event list" 'a

fun andThen :: "'a step \<Rightarrow> ('a \<Rightarrow> 'b step) \<Rightarrow> 'b step" where
  "andThen (Stop es oc) f = Stop es oc"
| "andThen (Cont es x) f =
     (case f x of Stop es' oc \<Rightarrow> Stop (es @ es') oc | Cont es' y \<Rightarrow> Cont (es @ es') y)"

fun events :: "'a step \<Rightarrow> event list" where
  "events (Stop es oc) = es"
| "events (Cont es u) = es"

fun exitStatus :: "unit step \<Rightarrow> outcome" where
  "exitStatus (Stop es oc) = oc"
| "exitStatus (Cont es u) = Exit 0"

section \<open>Library functions of the language\<close>

text \<open>\<^verbatim>\<open>Array.prototype.join(sep)\<close>\<close>

fun array_join :: "string \<Rightarrow> string list \<Rightarrow> string" where
  "array_join sep [] = []"
| "array_join sep [x] = x"
| "array_join sep (x # y # ys) = x @ sep @ array_join sep (y # ys)"

text \<open>\<^verbatim>\<open>String.prototype.split(sep)\<close> for a separator of one character: never an empty
  list.\<close>

fun split :: "char \<Rightarrow> string \<Rightarrow> string list" where
  "split sep [] = [[]]"
| "split sep (c # cs) =
     (if c = sep then [] # split sep cs
      else (case split sep cs of [] \<Rightarrow> [[c]] | x # xs \<Rightarrow> (c # x) # xs))"

text \<open>\<^verbatim>\<open>String.prototype.endsWith(suffix)\<close>\<close>

definition endsWith :: "string \<Rightarrow> string \<Rightarrow> bool" where
  "endsWith str suffix \<longleftrightarrow>
     length suffix \<le> length str \<and> drop (length str - length suffix) str = suffix"

text \<open>\<^verbatim>\<open>Array.prototype.find(pred)\<close> is \<^const>\<open>find\<close>, and \<^verbatim>\<open>Array.prototype.at(0)\<close>
  is the head, or \<^verbatim>\<open>undefined\<close>.\<close>

definition at0 :: "'a list \<Rightarrow> 'a option" where
  "at0 xs = (case xs of [] \<Rightarrow> None | x # _ \<Rightarrow> Some x)"

text \<open>
  \<^verbatim>\<open>Array.prototype.sort(comparefn)\<close>. The language requires the sort to be stable, and
  for a comparator that is a consistent ordering the stable result is unique: it is the one
  of this insertion sort, in which an element goes in front of the elements it does not
  compare greater than.
\<close>

fun insertSorted :: "('a \<Rightarrow> 'a \<Rightarrow> int) \<Rightarrow> 'a \<Rightarrow> 'a list \<Rightarrow> 'a list" where
  "insertSorted comparefn x [] = [x]"
| "insertSorted comparefn x (y # ys) =
     (if comparefn x y \<le> 0 then x # y # ys else y # insertSorted comparefn x ys)"

definition array_sort :: "('a \<Rightarrow> 'a \<Rightarrow> int) \<Rightarrow> 'a list \<Rightarrow> 'a list" where
  "array_sort comparefn xs = foldr (insertSorted comparefn) xs []"

text \<open>Truthiness of a string that may be \<^verbatim>\<open>undefined\<close>: the empty string is falsy.\<close>

definition truthy :: "string option \<Rightarrow> bool" where
  "truthy v \<longleftrightarrow> (case v of None \<Rightarrow> False | Some str \<Rightarrow> str \<noteq> [])"

definition falsy :: "string option \<Rightarrow> bool" where
  "falsy v \<longleftrightarrow> (case v of None \<Rightarrow> True | Some str \<Rightarrow> str = [])"

text \<open>\<^verbatim>\<open>!data || error\<close> after a prompt\<close>

definition cancelled :: "string tried \<Rightarrow> bool" where
  "cancelled r \<longleftrightarrow> falsy (data r) \<or> error r \<noteq> None"

section \<open>Parsing the configuration files\<close>

text \<open>\<^verbatim>\<open>filePath.split(".").pop()?.toLowerCase()\<close>\<close>

definition extension :: "sys \<Rightarrow> string \<Rightarrow> string" where
  "extension s filePath = toLowerCase s (last (split (CHR ''.'') filePath))"

text \<open>\<^verbatim>\<open>parseWranglerConfig\<close>: whatever is thrown inside is thrown again as an
  \<^verbatim>\<open>Error\<close> that names the file.\<close>

definition parseWranglerConfig :: "sys \<Rightarrow> string \<Rightarrow> exn + WranglerConfig" where
  "parseWranglerConfig s filePath =
     (case (case readFileSync (fs s) filePath of
              Inl e \<Rightarrow> Inl e
            | Inr content \<Rightarrow>
                (let ext = extension s filePath in
                 if ext = ''toml'' then parseToml (wrangler_parsers s) content
                 else if ext = ''json'' then JSON_parse (wrangler_parsers s) content
                 else if ext = ''jsonc''
                   then parseJsonc_wrangler (JSON_parse (wrangler_parsers s)) content
                 else Inl (Error (''Unsupported file extension: '' @ ext)))) of
        Inl e \<Rightarrow>
          Inl (Error (''Failed to parse wrangler config at '' @ filePath @ '': ''
                      @ errorMessage e))
      | Inr doc \<Rightarrow> Inr doc)"

definition parseWranglerConfigTyped :: "sys \<Rightarrow> string \<Rightarrow> exn + WranglerConfig" where
  "parseWranglerConfigTyped s filePath = parseWranglerConfig s filePath"

definition importModule :: "sys \<Rightarrow> string \<Rightarrow> exn + DrizzleConfig" where
  "importModule s filePath =
     (case import_file s filePath of
        Inr m \<Rightarrow> Inr m
      | Inl e \<Rightarrow>
          Inl (Error (''Failed to import module at '' @ filePath @ '': '' @ errorMessage e)))"

text \<open>\<^verbatim>\<open>parseDrizzleConfig\<close>: here the file is read inside each case.\<close>

definition parseDrizzleConfig :: "sys \<Rightarrow> string \<Rightarrow> exn + DrizzleConfig" where
  "parseDrizzleConfig s filePath =
     (case (let ext = extension s filePath in
            if ext = ''ts'' \<or> ext = ''js'' \<or> ext = ''mts'' \<or> ext = ''mjs''
              then importModule s filePath
            else if ext = ''toml''
              then (case readFileSync (fs s) filePath of
                      Inl e \<Rightarrow> Inl e
                    | Inr tomlContent \<Rightarrow> parseToml (drizzle_parsers s) tomlContent)
            else if ext = ''json''
              then (case readFileSync (fs s) filePath of
                      Inl e \<Rightarrow> Inl e
                    | Inr jsonContent \<Rightarrow> JSON_parse (drizzle_parsers s) jsonContent)
            else if ext = ''jsonc''
              then (case readFileSync (fs s) filePath of
                      Inl e \<Rightarrow> Inl e
                    | Inr jsoncContent \<Rightarrow>
                        parseJsonc_drizzle (JSON_parse (drizzle_parsers s)) jsoncContent)
            else Inl (Error (''Unsupported file extension: '' @ ext))) of
        Inl e \<Rightarrow>
          Inl (Error (''Failed to parse drizzle config at '' @ filePath @ '': ''
                      @ errorMessage e))
      | Inr doc \<Rightarrow> Inr doc)"

definition parseDrizzleConfigTyped :: "sys \<Rightarrow> string \<Rightarrow> exn + DrizzleConfig" where
  "parseDrizzleConfigTyped s filePath = parseDrizzleConfig s filePath"

section \<open>The script\<close>

text \<open>The parts of \<^verbatim>\<open>index.ts\<close>, in the order of the file. Each is named after the
  variable it settles.\<close>

definition quoted :: "string \<Rightarrow> string" where
  "quoted str = [CHR 0x27] @ str @ [CHR 0x27]"

text \<open>Resolve CWD\<close>

definition resolvedWorkdir :: "sys \<Rightarrow> string step" where
  "resolvedWorkdir s =
     (if truthy (dir (opts s))
      then (let d = the (dir (opts s)); wd = resolve s [cwd s, d] in
            if \<not> existsSync (fs s) wd
            then Stop [ConsoleError (''Error: Working directory '' @ quoted d
                                     @ '' does not exist'')] (Exit 1)
            else Cont [] wd)
      else Cont [] (resolve s [cwd s]))"

text \<open>The prompt for the mode. Its answer is bound inside the block and read only by the
  test for cancellation.\<close>

definition modeChoices :: "choice list" where
  "modeChoices = [\<lparr>label = ''local'', val = ''local''\<rparr>, \<lparr>label = ''remote'', val = ''remote''\<rparr>]"

definition modePrompt :: "sys \<Rightarrow> unit step" where
  "modePrompt s =
     (if \<not> local (opts s) \<and> \<not> remote (opts s)
      then (let msg = yellow (pc s) ''Want to migrate locally or remotely?'';
                asked = PromptSelect msg modeChoices (Some ''local'') in
            if cancelled (prompt_select s msg modeChoices (Some ''local''))
            then Stop [asked, ConsolaError ''Migration cancelled.''] (Exit 1)
            else Cont [asked] ())
      else Cont [] ())"

text \<open>Look for wrangler configuration files\<close>

definition wranglerConfigs :: "string list" where
  "wranglerConfigs = [''wrangler.toml'', ''wrangler.json'', ''wrangler.jsonc'']"

definition foundConfigs :: "sys \<Rightarrow> string \<Rightarrow> string list" where
  "foundConfigs s wd = filter (\<lambda>config. existsSync (fs s) (join s [wd, config])) wranglerConfigs"

definition configPath :: "sys \<Rightarrow> string \<Rightarrow> string step" where
  "configPath s wd =
     (let found = foundConfigs s wd in
      if length found = 0
      then Stop [ConsoleError (''Error: No wrangler configuration file found in '' @ quoted wd),
                 ConsoleError (''Expected one of: '' @ array_join '', '' wranglerConfigs)]
                (Exit 1)
      else Cont (if length found > 1
                 then [ConsoleWarn (''Warning: Multiple wrangler config files found: ''
                                    @ array_join '', '' found),
                       ConsoleLog (''Using: '' @ found ! 0)]
                 else [])
                (join s [wd, (case at0 found of Some c \<Rightarrow> c | None \<Rightarrow> [])]))"

definition wranglerConfig :: "sys \<Rightarrow> string \<Rightarrow> WranglerConfig step" where
  "wranglerConfig s path =
     (case parseWranglerConfigTyped s path of
        Inr doc \<Rightarrow> Cont [] doc
      | Inl e \<Rightarrow>
          Stop [ConsoleError (''Failed to parse wrangler config: '' @ errorMessage e)] (Exit 1))"

text \<open>Look for drizzle config file\<close>

definition drizzleConfigs :: "string list" where
  "drizzleConfigs = [''drizzle.config.ts'', ''drizzle.config.js'']"

definition foundDrizzleConfig :: "sys \<Rightarrow> string \<Rightarrow> string list" where
  "foundDrizzleConfig s wd =
     filter (\<lambda>config. existsSync (fs s) (join s [wd, config])) drizzleConfigs"

definition drizzleConfigPath :: "sys \<Rightarrow> string \<Rightarrow> string step" where
  "drizzleConfigPath s wd =
     (let found = foundDrizzleConfig s wd in
      if length found = 0
      then Stop [ConsoleError (''Error: No drizzle configuration file found in '' @ quoted wd),
                 ConsoleError (''Expected one of: '' @ array_join '', '' drizzleConfigs)]
                (Exit 1)
      else Cont (if length found > 1
                 then [ConsoleWarn (''Warning: Multiple drizzle config files found: ''
                                    @ array_join '', '' found),
                       ConsoleLog (''Using: '' @ found ! 0)]
                 else [])
                (join s [wd, (case at0 found of Some c \<Rightarrow> c | None \<Rightarrow> [])]))"

definition drizzleConfig :: "sys \<Rightarrow> string \<Rightarrow> DrizzleConfig step" where
  "drizzleConfig s path =
     (case parseDrizzleConfigTyped s path of
        Inr doc \<Rightarrow> Cont [] doc
      | Inl e \<Rightarrow>
          Stop [ConsoleError (''Failed to parse drizzle config: '' @ errorMessage e)] (Exit 1))"

text \<open>Select cloudflare/wrangler environment. \<^verbatim>\<open>Object.keys(wranglerConfig.env ?? {})\<close>\<close>

definition environments :: "WranglerConfig \<Rightarrow> string list" where
  "environments cfg = (case env cfg of None \<Rightarrow> [] | Some kvs \<Rightarrow> map fst kvs)"

definition envChoices :: "WranglerConfig \<Rightarrow> choice list" where
  "envChoices cfg = map (\<lambda>key. \<lparr>label = key, val = key\<rparr>) (environments cfg)"

definition selectedEnvironment :: "sys \<Rightarrow> WranglerConfig \<Rightarrow> string option step" where
  "selectedEnvironment s cfg =
     (if length (environments cfg) = 1
      then Cont [] (Some (environments cfg ! 0))
      else (let msg = yellow (pc s) ''Select an environment:'';
                initial = at0 (environments cfg);
                asked = PromptSelect msg (envChoices cfg) initial;
                r = prompt_select s msg (envChoices cfg) initial in
            if cancelled r
            then Stop [asked, ConsolaError ''Migration cancelled.''] (Exit 1)
            else Cont [asked] (data r)))"

text \<open>The databases of the chosen scope. Reading \<^verbatim>\<open>databases.length\<close> when the
  property is absent throws a \<^verbatim>\<open>TypeError\<close>, outside every \<^verbatim>\<open>try\<close>.\<close>

definition databases :: "WranglerConfig \<Rightarrow> string option \<Rightarrow> D1Database list option" where
  "databases cfg selEnv =
     (if truthy selEnv
      then (case env cfg of
              None \<Rightarrow> None
            | Some kvs \<Rightarrow>
                (case map_of kvs (the selEnv) of
                   None \<Rightarrow> None
                 | Some scope \<Rightarrow> env_d1_databases scope))
      else d1_databases cfg)"

definition dbChoices :: "D1Database list \<Rightarrow> choice list" where
  "dbChoices dbs =
     map (\<lambda>db. \<lparr>label = database_name db @ '' - ''
                         @ (case database_id db of
                              Some i \<Rightarrow> take 6 i
                            | None \<Rightarrow> ''undefined''),
                val = (case database_id db of Some i \<Rightarrow> i | None \<Rightarrow> [])\<rparr>) dbs"

definition selectedDatabase ::
  "sys \<Rightarrow> WranglerConfig \<Rightarrow> string option \<Rightarrow> D1Database option step" where
  "selectedDatabase s cfg selEnv =
     (case databases cfg selEnv of
        None \<Rightarrow> Stop [] Uncaught_TypeError
      | Some dbs \<Rightarrow>
          if length dbs = 0
          then Stop [ConsoleError ''No cloudflare d1 databases found/configured.''] (Exit 1)
          else if length dbs = 1
          then Cont [] (Some (dbs ! 0))
          else (let msg = yellow (pc s) ''Select a database to migrate to:'';
                    asked = PromptSelect msg (dbChoices dbs) (Some ''local'');
                    r = prompt_select s msg (dbChoices dbs) (Some ''local'') in
                if cancelled r
                then Stop [asked, ConsolaError ''Migration cancelled.''] (Exit 1)
                else Cont [asked] (find (\<lambda>db. database_id db = data r) dbs)))"

text \<open>The migrations folder, \<^verbatim>\<open>join(resolvedWorkdir, drizzleConfig.out ?? "drizzle")\<close>\<close>

definition migrationsFolder :: "sys \<Rightarrow> string \<Rightarrow> DrizzleConfig \<Rightarrow> string" where
  "migrationsFolder s wd dcfg =
     join s [wd, (case out dcfg of Some d \<Rightarrow> d | None \<Rightarrow> ''drizzle'')]"

definition foundDrizzleMigrationsFolder ::
  "sys \<Rightarrow> filesystem \<Rightarrow> string \<Rightarrow> DrizzleConfig \<Rightarrow> bool" where
  "foundDrizzleMigrationsFolder s fsys wd dcfg = existsSync fsys (migrationsFolder s wd dcfg)"

text \<open>The question that is always asked, and \<^verbatim>\<open>drizzle-kit generate\<close> on a yes. The
  spinner of this block is never started. The result is the file system afterwards.\<close>

definition createNewMigration :: "sys \<Rightarrow> string \<Rightarrow> DrizzleConfig \<Rightarrow> filesystem step" where
  "createNewMigration s wd dcfg =
     (let msg = ''Want to create a new migration?''
                @ (if \<not> foundDrizzleMigrationsFolder s (fs s) wd dcfg
                   then '' (Currently we can't locate any migrations)'' else []);
          asked = PromptConfirm msg False;
          r = prompt_confirm s msg False in
      if error r \<noteq> None
      then Stop [asked, ConsolaError ''Migration cancelled.''] (Exit 1)
      else if data r = Some True
      then (let isInteractive = stdin_isTTY s \<and> stdout_isTTY s;
                io = (if isInteractive then Inherit else Pipe);
                before = (if isInteractive
                          then [SpinnerStop, ConsoleLog (blue (pc s) ''Running drizzle-kit generate...'')]
                          else []);
                ran = Execa ''bunx'' [''drizzle-kit'', ''generate''] wd io in
            case execa s ''bunx'' [''drizzle-kit'', ''generate''] wd io (fs s) of
              Inr fsys \<Rightarrow>
                Cont (asked # before @ [ran,
                        if isInteractive
                        then ConsoleLog (green (pc s)
                               ([CHR 0xE2, CHR 0x9C, CHR 0x93] @ '' New migration created''))
                        else SpinnerSuccess ''New migration created''])
                     fsys
            | Inl e \<Rightarrow>
                Stop (asked # before @ [ran,
                        ConsoleError (red (pc s)
                          ([CHR 0xE2, CHR 0x9C, CHR 0x97] @ '' Failed to create migration'')),
                        ConsolaError ''Migration cancelled.''])
                     (Exit 1))
      else Cont [asked] (fs s))"

text \<open>The folder is looked for again afterwards.\<close>

definition locatedMigrationsFolder ::
  "sys \<Rightarrow> filesystem \<Rightarrow> string \<Rightarrow> DrizzleConfig \<Rightarrow> unit step" where
  "locatedMigrationsFolder s fsys wd dcfg =
     (if \<not> foundDrizzleMigrationsFolder s fsys wd dcfg
      then Stop [ConsolaError ''Migration cancelled: Was not able to locate migrations folder'']
                (Exit 1)
      else Cont [] ())"

text \<open>Load all SQL files from migrations folder sorted by last modified date\<close>

definition sqlFiles :: "string list \<Rightarrow> string list" where
  "sqlFiles allFiles = filter (\<lambda>file. endsWith file ''.sql'') allFiles"

record MigrationFile =
  name :: string
  path :: string
  mtime :: int

text \<open>The \<^verbatim>\<open>map\<close> over the files: \<^verbatim>\<open>statSync\<close> throws at the first file it
  cannot read.\<close>

fun withStats :: "sys \<Rightarrow> filesystem \<Rightarrow> string \<Rightarrow> string list \<Rightarrow> exn + MigrationFile list" where
  "withStats s fsys folder [] = Inr []"
| "withStats s fsys folder (file # files) =
     (let filePath = join s [folder, file] in
      case statSync_mtime fsys filePath of
        Inl e \<Rightarrow> Inl e
      | Inr t \<Rightarrow>
          (case withStats s fsys folder files of
             Inl e \<Rightarrow> Inl e
           | Inr rest \<Rightarrow> Inr (\<lparr>name = file, path = filePath, mtime = t\<rparr> # rest)))"

definition sqlFilesWithStats ::
  "sys \<Rightarrow> filesystem \<Rightarrow> string \<Rightarrow> string list \<Rightarrow> exn + MigrationFile list" where
  "sqlFilesWithStats s fsys folder files =
     (case withStats s fsys folder files of
        Inl e \<Rightarrow> Inl e
      | Inr stats \<Rightarrow> Inr (array_sort (\<lambda>a b. mtime b - mtime a) stats))"

definition migrationChoices :: "sys \<Rightarrow> MigrationFile list \<Rightarrow> choice list" where
  "migrationChoices s ordered =
     map (\<lambda>(index, file).
            \<lparr>label = (if index = 0 then magenta (pc s) ''NEWEST'' else []) @ '' '' @ name file
                      @ ''  '' @ gray (pc s) (format s (mtime file) ''HH:mm yyyy-MM-dd''),
             val = path file\<rparr>)
         (enumerate 0 ordered)"

definition selectedMigration ::
  "sys \<Rightarrow> filesystem \<Rightarrow> string \<Rightarrow> DrizzleConfig \<Rightarrow> string step" where
  "selectedMigration s fsys wd dcfg =
     (case readdirSync fsys (migrationsFolder s wd dcfg) of
        Inl e \<Rightarrow> Stop [] (Uncaught e)
      | Inr allFiles \<Rightarrow>
          if length (sqlFiles allFiles) = 0
          then Cont [ConsolaWarn ''No SQL migration files found in the migrations folder.''] []
          else (case sqlFilesWithStats s fsys (migrationsFolder s wd dcfg) (sqlFiles allFiles) of
                  Inl e \<Rightarrow> Stop [] (Uncaught e)
                | Inr ordered \<Rightarrow>
                    (let found = ConsoleLog ''Found SQL migration files (sorted by date):'';
                         msg = yellow (pc s) ''Select a migration:'';
                         initial = map_option path (at0 ordered);
                         asked = PromptSelect msg (migrationChoices s ordered) initial;
                         r = prompt_select s msg (migrationChoices s ordered) initial in
                     if cancelled r
                     then Stop [found, asked, ConsolaError ''Migration cancelled.''] (Exit 1)
                     else Cont [found, asked] (the (data r)))))"

text \<open>The arguments of the command, empty strings filtered out.\<close>

definition migrationParams ::
  "opts \<Rightarrow> D1Database option \<Rightarrow> string option \<Rightarrow> string \<Rightarrow> string list" where
  "migrationParams flags selDb selEnv selMigration =
     filter (\<lambda>prop. prop \<noteq> [])
       ([''wrangler'', ''d1'', ''execute'',
         (case selDb of Some db \<Rightarrow> database_name db | None \<Rightarrow> []),
         (if local flags then ''--local'' else []),
         (if remote flags then ''--remote'' else [])]
        @ (if truthy selEnv then [''--env'', the selEnv] else [])
        @ [''--file'', selMigration])"

definition migrate ::
  "sys \<Rightarrow> filesystem \<Rightarrow> string \<Rightarrow> D1Database option \<Rightarrow> string option \<Rightarrow> string \<Rightarrow> unit step" where
  "migrate s fsys wd selDb selEnv selMigration =
     (let params = migrationParams (opts s) selDb selEnv selMigration;
          started = [SpinnerStart ''Starting migration'', Execa ''bunx'' params wd Default] in
      case execa s ''bunx'' params wd Default fsys of
        Inr _ \<Rightarrow> Cont (started @ [SpinnerSuccess ''Successfully migrated!'']) ()
      | Inl e \<Rightarrow> Stop (started @ [ConsolaErrorWith ''Migration cancelled: '' e]) (Exit 1))"

text \<open>The whole script.\<close>

definition run :: "sys \<Rightarrow> unit step" where
  "run s =
     andThen (resolvedWorkdir s) (\<lambda>wd.
     andThen (modePrompt s) (\<lambda>_.
     andThen (configPath s wd) (\<lambda>cpath.
     andThen (wranglerConfig s cpath) (\<lambda>wcfg.
     andThen (drizzleConfigPath s wd) (\<lambda>dpath.
     andThen (drizzleConfig s dpath) (\<lambda>dcfg.
     andThen (selectedEnvironment s wcfg) (\<lambda>selEnv.
     andThen (selectedDatabase s wcfg selEnv) (\<lambda>selDb.
     andThen (createNewMigration s wd dcfg) (\<lambda>fsys.
     andThen (locatedMigrationsFolder s fsys wd dcfg) (\<lambda>_.
     andThen (selectedMigration s fsys wd dcfg) (\<lambda>selMigration.
     migrate s fsys wd selDb selEnv selMigration)))))))))))"

section \<open>A project to run the script on\<close>

text \<open>
  A working directory \<^verbatim>\<open>/w\<close> with the project \<^verbatim>\<open>/w/proj\<close>: a
  \<^verbatim>\<open>wrangler.json\<close> with the environment \<^verbatim>\<open>prod\<close> and one database, a
  \<^verbatim>\<open>drizzle.config.ts\<close> with \<^verbatim>\<open>out: "drizzle"\<close>, and one migration in
  \<^verbatim>\<open>/w/proj/drizzle\<close>. The script is started with \<^verbatim>\<open>--remote --dir ./proj\<close>.
  The user declines to create a migration and accepts the highlighted entry of every list; the
  external commands succeed; colours are off.
\<close>

definition demo_resolve :: "string list \<Rightarrow> string" where
  "demo_resolve parts =
     (case parts of
        [c, d] \<Rightarrow> c @ ''/'' @ (if take 2 d = ''./'' then drop 2 d else d)
      | _ \<Rightarrow> array_join ''/'' parts)"

definition demo_join :: "string list \<Rightarrow> string" where
  "demo_join parts = array_join ''/'' (filter (\<lambda>p. p \<noteq> []) parts)"

definition demo_toLowerCase :: "string \<Rightarrow> string" where
  "demo_toLowerCase str =
     map (\<lambda>c. if (65::nat) \<le> of_char c \<and> of_char c \<le> (90::nat)
               then char_of (of_char c + (32::nat)) else c) str"

definition demo_database :: D1Database where
  "demo_database = \<lparr>binding = ''DB'', database_name = ''app'', database_id = Some ''abc123''\<rparr>"

definition demo_wrangler :: WranglerConfig where
  "demo_wrangler =
     \<lparr>env = Some [(''prod'', \<lparr>env_d1_databases = Some [demo_database]\<rparr>)], d1_databases = None\<rparr>"

definition demo_wrangler_json :: jsstring where
  "demo_wrangler_json = js ''{\"env\":{\"prod\":{\"d1_databases\":[{\"binding\":\"DB\",\"database_name\":\"app\",\"database_id\":\"abc123\"}]}}}''"

definition demo_fs :: filesystem where
  "demo_fs =
     \<lparr>existsSync = (\<lambda>p. p \<in> set [''/w/proj'', ''/w/proj/wrangler.json'',
                                    ''/w/proj/drizzle.config.ts'', ''/w/proj/drizzle'']),
      readFileSync = (\<lambda>p. if p = ''/w/proj/wrangler.json'' then Inr demo_wrangler_json
                           else Inl (Error ''ENOENT'')),
      readdirSync = (\<lambda>p. if p = ''/w/proj/drizzle'' then Inr [''0000_init.sql'']
                          else Inl (Error ''ENOENT'')),
      statSync_mtime = (\<lambda>p. if p = ''/w/proj/drizzle/0000_init.sql'' then Inr 1700000000000
                             else Inl (Error ''ENOENT''))\<rparr>"

definition demo_colors :: picocolors where
  "demo_colors = \<lparr>yellow = (\<lambda>t. t), magenta = (\<lambda>t. t), gray = (\<lambda>t. t), blue = (\<lambda>t. t),
                  green = (\<lambda>t. t), red = (\<lambda>t. t)\<rparr>"

definition demo :: "WranglerConfig \<Rightarrow> sys" where
  "demo wcfg =
     \<lparr>opts = \<lparr>local = False, remote = True, dir = Some ''./proj''\<rparr>,
      cwd = ''/w'',
      stdin_isTTY = True,
      stdout_isTTY = True,
      resolve = demo_resolve,
      join = demo_join,
      toLowerCase = demo_toLowerCase,
      fs = demo_fs,
      wrangler_parsers =
        \<lparr>parseToml = (\<lambda>content. Inl (Error ''Unexpected character'')),
         JSON_parse = (\<lambda>content. if content = demo_wrangler_json then Inr wcfg
                                  else Inl (Error ''Unexpected token''))\<rparr>,
      drizzle_parsers =
        \<lparr>parseToml = (\<lambda>content. Inl (Error ''Unexpected character'')),
         JSON_parse = (\<lambda>content. Inl (Error ''Unexpected token''))\<rparr>,
      import_file = (\<lambda>p. if p = ''/w/proj/drizzle.config.ts'' then Inr \<lparr>out = Some ''drizzle''\<rparr>
                          else Inl (Error ''Cannot find module'')),
      prompt_select = (\<lambda>msg options initial. \<lparr>data = initial, error = None\<rparr>),
      prompt_confirm = (\<lambda>msg initial. \<lparr>data = Some initial, error = None\<rparr>),
      execa = (\<lambda>file args dir io fsys. Inr fsys),
      pc = demo_colors,
      format = (\<lambda>t pattern. ''22:13 2023-11-14'')\<rparr>"

text \<open>The same project started without \<^verbatim>\<open>--local\<close> and \<^verbatim>\<open>--remote\<close>, where the
  user gives the answer \<open>mode\<close> to the question about the mode.\<close>

definition answers_mode :: "string \<Rightarrow> sys" where
  "answers_mode mode =
     (demo demo_wrangler)
       \<lparr>opts := \<lparr>local = False, remote = False, dir = Some ''./proj''\<rparr>,
        prompt_select := (\<lambda>msg options initial.
           if options = modeChoices then \<lparr>data = Some mode, error = None\<rparr>
           else \<lparr>data = initial, error = None\<rparr>)\<rparr>"

text \<open>Two databases in \<^verbatim>\<open>prod\<close>, the first without \<^verbatim>\<open>database_id\<close>, and a user
  who chooses the first row of every list.\<close>

definition two_databases :: WranglerConfig where
  "two_databases =
     \<lparr>env = Some [(''prod'', \<lparr>env_d1_databases = Some
               [\<lparr>binding = ''DB'', database_name = ''app'', database_id = None\<rparr>,
                \<lparr>binding = ''LOGS'', database_name = ''logs'', database_id = Some ''def456''\<rparr>]\<rparr>)],
      d1_databases = None\<rparr>"

definition picks_first :: sys where
  "picks_first =
     (demo two_databases)
       \<lparr>prompt_select := (\<lambda>msg options initial.
           \<lparr>data = map_option val (at0 options), error = None\<rparr>)\<rparr>"

text \<open>A configuration without \<^verbatim>\<open>env\<close>, its database at the top level.\<close>

definition top_level_only :: WranglerConfig where
  "top_level_only = \<lparr>env = None, d1_databases = Some [demo_database]\<rparr>"

text \<open>An environment without \<^verbatim>\<open>d1_databases\<close>.\<close>

definition no_bindings :: WranglerConfig where
  "no_bindings = \<lparr>env = Some [(''prod'', \<lparr>env_d1_databases = None\<rparr>)], d1_databases = None\<rparr>"

text \<open>A migrations folder with three migrations, two of them modified at the same time, and
  a file that is no migration.\<close>

definition tied_fs :: filesystem where
  "tied_fs =
     demo_fs
       \<lparr>readdirSync := (\<lambda>p. if p = ''/w/proj/drizzle''
                             then Inr [''0001_b.sql'', ''0000_a.sql'', ''notes.txt'', ''0002_c.sql'']
                             else Inl (Error ''ENOENT'')),
        statSync_mtime := (\<lambda>p. if p = ''/w/proj/drizzle/0000_a.sql'' then Inr 100
                                else if p = ''/w/proj/drizzle/0001_b.sql'' then Inr 200
                                else if p = ''/w/proj/drizzle/0002_c.sql'' then Inr 200
                                else Inl (Error ''ENOENT''))\<rparr>"

text \<open>A project with both \<^verbatim>\<open>wrangler.json\<close> and \<^verbatim>\<open>wrangler.jsonc\<close>.\<close>

definition both_json :: sys where
  "both_json =
     (demo demo_wrangler)
       \<lparr>fs := demo_fs\<lparr>existsSync := (\<lambda>p. p \<in> set [''/w/proj'', ''/w/proj/wrangler.json'',
                                   ''/w/proj/wrangler.jsonc'', ''/w/proj/drizzle.config.ts'',
                                   ''/w/proj/drizzle''])\<rparr>\<rparr>"

text \<open>A migrations folder without a migration.\<close>

definition no_sql :: filesystem where
  "no_sql =
     demo_fs\<lparr>readdirSync := (\<lambda>p. if p = ''/w/proj/drizzle'' then Inr [''meta'', ''notes.txt'']
                                 else Inl (Error ''ENOENT''))\<rparr>"

section \<open>Unfolding the script\<close>

lemmas script_defs =
  resolvedWorkdir_def modePrompt_def modeChoices_def configPath_def foundConfigs_def
  wranglerConfigs_def wranglerConfig_def drizzleConfigs_def foundDrizzleConfig_def
  drizzleConfigPath_def drizzleConfig_def environments_def envChoices_def
  selectedEnvironment_def databases_def dbChoices_def selectedDatabase_def
  migrationsFolder_def foundDrizzleMigrationsFolder_def createNewMigration_def
  locatedMigrationsFolder_def sqlFiles_def sqlFilesWithStats_def migrationChoices_def
  selectedMigration_def migrationParams_def migrate_def truthy_def falsy_def cancelled_def at0_def
  endsWith_def array_sort_def quoted_def parseWranglerConfigTyped_def
  parseWranglerConfig_def parseDrizzleConfigTyped_def parseDrizzleConfig_def
  importModule_def extension_def errorMessage_def

lemmas demo_defs =
  demo_def demo_fs_def demo_colors_def demo_join_def demo_resolve_def demo_toLowerCase_def
  demo_wrangler_def demo_database_def demo_wrangler_json_def js_def

section \<open>The two copies of parseJsonc\<close>

lemma line_comments_agree: "drizzle_removeLineComments cs = removeLineComments cs"
  by (induction cs rule: removeLineComments.induct) simp_all

lemma block_ends_agree: "drizzle_blockCommentEnd cs = blockCommentEnd cs"
  by (induction cs rule: blockCommentEnd.induct) simp_all

lemma block_comments_agree: "drizzle_removeBlockComments cs = removeBlockComments cs"
  by (induction cs rule: removeBlockComments.induct)
     (simp_all add: block_ends_agree split: option.splits)

lemma trailing_commas_agree: "drizzle_removeTrailingCommas cs = removeTrailingCommas cs"
  by (induction cs rule: removeTrailingCommas.induct)
     (auto simp: Let_def split: list.splits)

text \<open>
  C10. The JSONC stripping of the wrangler-config parser and the one of the drizzle-config
  parser are the same function: on every input both produce the same cleaned text, and so hand
  the same text to \<^verbatim>\<open>JSON.parse\<close> and return its document or throw its exception alike.
\<close>

theorem parseJsonc_copies_agree:
  "cleaned_wrangler content = cleaned_drizzle content
   \<and> parseJsonc_wrangler parser content = parseJsonc_drizzle parser content"
  by (simp add: cleaned_wrangler_def cleaned_drizzle_def parseJsonc_wrangler_def
      parseJsonc_drizzle_def line_comments_agree block_comments_agree trailing_commas_agree)

section \<open>Strings that look like comments\<close>

text \<open>
  C3. Parsing a JSONC text should give the document of its plain-JSON equivalent, also when a
  string literal contains \<^verbatim>\<open>//\<close> or \<^verbatim>\<open>/*\<close>. The stripping does not know
  string literals: of \<^verbatim>\<open>{"u":"http://x"}\<close>, which is plain JSON already, it hands
  \<^verbatim>\<open>{"u":"http:\<close> to \<^verbatim>\<open>JSON.parse\<close>, and of \<^verbatim>\<open>{"a":"x/*y*/z"}\<close> it hands on
  \<^verbatim>\<open>{"a":"xz"}\<close>, a different document.
\<close>

theorem jsonc_corrupts_string_literals:
  "cleaned_wrangler (js ''{\"u\":\"http://x\"}'') = js ''{\"u\":\"http:''
   \<and> parseJsonc_wrangler parser (js ''{\"u\":\"http://x\"}'') = parser (js ''{\"u\":\"http:'')
   \<and> cleaned_wrangler (js ''{\"a\":\"x/*y*/z\"}'') = js ''{\"a\":\"xz\"}''
   \<and> parseJsonc_wrangler parser (js ''{\"a\":\"x/*y*/z\"}'') = parser (js ''{\"a\":\"xz\"}'')"
  by (simp add: parseJsonc_wrangler_def cleaned_wrangler_def js_def isLineTerminator_def
      isSpace_def)

section \<open>Runs of the whole script\<close>

text \<open>
  C1, as stated, fails: with one environment \<^verbatim>\<open>prod\<close>, one database, one migration and
  the flags \<^verbatim>\<open>--remote --dir ./proj\<close> the run does ask the user. The question whether to
  create a new migration is among its events.
\<close>

theorem end_to_end_asks_the_user:
  "PromptConfirm ''Want to create a new migration?'' False
     \<in> set (events (run (demo demo_wrangler)))"
  by (simp add: run_def script_defs demo_defs)

text \<open>Steps in sequence, and the question that no run gets around.\<close>

lemma andThen_Cont_Nil: "andThen (Cont [] x) f = f x"
  by (cases "f x") simp_all

lemma events_andThen_first:
  "events st = e # rest \<Longrightarrow> \<exists>rest'. events (andThen st f) = e # rest'"
  by (cases st) (auto split: step.splits)

lemma createNewMigration_asks:
  "\<exists>rest. events (createNewMigration s wd dcfg) =
     PromptConfirm (''Want to create a new migration?''
                @ (if \<not> foundDrizzleMigrationsFolder s (fs s) wd dcfg
                   then '' (Currently we can't locate any migrations)'' else [])) False # rest"
  by (simp add: createNewMigration_def Let_def split: sum.splits)

lemma demo_reaches_the_question:
  "run ((demo demo_wrangler)\<lparr>prompt_confirm := confirm, prompt_select := select\<rparr>) =
     andThen (createNewMigration
                ((demo demo_wrangler)\<lparr>prompt_confirm := confirm, prompt_select := select\<rparr>)
                ''/w/proj'' \<lparr>out = Some ''drizzle''\<rparr>) (\<lambda>fsys.
     andThen (locatedMigrationsFolder
                ((demo demo_wrangler)\<lparr>prompt_confirm := confirm, prompt_select := select\<rparr>)
                fsys ''/w/proj'' \<lparr>out = Some ''drizzle''\<rparr>) (\<lambda>_.
     andThen (selectedMigration
                ((demo demo_wrangler)\<lparr>prompt_confirm := confirm, prompt_select := select\<rparr>)
                fsys ''/w/proj'' \<lparr>out = Some ''drizzle''\<rparr>) (\<lambda>selMigration.
     migrate ((demo demo_wrangler)\<lparr>prompt_confirm := confirm, prompt_select := select\<rparr>)
       fsys ''/w/proj'' (Some demo_database) (Some ''prod'') selMigration)))"
  by (simp add: run_def andThen_Cont_Nil resolvedWorkdir_def modePrompt_def configPath_def
      foundConfigs_def wranglerConfigs_def wranglerConfig_def drizzleConfigs_def
      foundDrizzleConfig_def drizzleConfigPath_def drizzleConfig_def environments_def
      selectedEnvironment_def databases_def selectedDatabase_def truthy_def at0_def
      parseWranglerConfigTyped_def parseWranglerConfig_def parseDrizzleConfigTyped_def
      parseDrizzleConfig_def importModule_def extension_def demo_def demo_fs_def demo_join_def
      demo_resolve_def demo_toLowerCase_def demo_wrangler_def
      del: andThen.simps)

lemma demo_always_asks:
  "\<exists>rest. events (run ((demo demo_wrangler)\<lparr>prompt_confirm := confirm, prompt_select := select\<rparr>))
           = PromptConfirm ''Want to create a new migration?'' False # rest"
proof -
  let ?s = "(demo demo_wrangler)\<lparr>prompt_confirm := confirm, prompt_select := select\<rparr>"
  have found: "foundDrizzleMigrationsFolder ?s (fs ?s) ''/w/proj'' \<lparr>out = Some ''drizzle''\<rparr>"
    by (simp add: foundDrizzleMigrationsFolder_def migrationsFolder_def demo_defs)
  from createNewMigration_asks [of ?s "''/w/proj''" "\<lparr>out = Some ''drizzle''\<rparr>"] found
  obtain rest where "events (createNewMigration ?s ''/w/proj'' \<lparr>out = Some ''drizzle''\<rparr>) =
     PromptConfirm ''Want to create a new migration?'' False # rest"
    by auto
  then show ?thesis
    unfolding demo_reaches_the_question by (rule events_andThen_first)
qed

text \<open>
  C1, amended. For that project and those flags there is no question about the mode, the
  environment or the database, but whatever the user answers, the first thing the run does
  is to ask whether to create a new migration; it then asks which migration to run, the
  single file being flagged and highlighted. When the user declines the first and accepts
  the second, the run ends with status 0 after exactly one command,
  \<^verbatim>\<open>bunx wrangler d1 execute app --remote --env prod --file\<close> followed by the path of
  \<^verbatim>\<open>0000_init.sql\<close> inside the migrations folder.
\<close>

theorem end_to_end_prod_remote:
  "run (demo demo_wrangler) =
     Cont [PromptConfirm ''Want to create a new migration?'' False,
           ConsoleLog ''Found SQL migration files (sorted by date):'',
           PromptSelect ''Select a migration:''
             [\<lparr>label = ''NEWEST 0000_init.sql  22:13 2023-11-14'',
               val = ''/w/proj/drizzle/0000_init.sql''\<rparr>]
             (Some ''/w/proj/drizzle/0000_init.sql''),
           SpinnerStart ''Starting migration'',
           Execa ''bunx''
             [''wrangler'', ''d1'', ''execute'', ''app'', ''--remote'', ''--env'', ''prod'',
              ''--file'', ''/w/proj/drizzle/0000_init.sql'']
             ''/w/proj'' Default,
           SpinnerSuccess ''Successfully migrated!'']
          ()
   \<and> exitStatus (run (demo demo_wrangler)) = Exit 0
   \<and> (\<forall>confirm select. \<exists>rest.
         events (run ((demo demo_wrangler)\<lparr>prompt_confirm := confirm, prompt_select := select\<rparr>))
         = PromptConfirm ''Want to create a new migration?'' False # rest)"
proof -
  have "run (demo demo_wrangler) =
     Cont [PromptConfirm ''Want to create a new migration?'' False,
           ConsoleLog ''Found SQL migration files (sorted by date):'',
           PromptSelect ''Select a migration:''
             [\<lparr>label = ''NEWEST 0000_init.sql  22:13 2023-11-14'',
               val = ''/w/proj/drizzle/0000_init.sql''\<rparr>]
             (Some ''/w/proj/drizzle/0000_init.sql''),
           SpinnerStart ''Starting migration'',
           Execa ''bunx''
             [''wrangler'', ''d1'', ''execute'', ''app'', ''--remote'', ''--env'', ''prod'',
              ''--file'', ''/w/proj/drizzle/0000_init.sql'']
             ''/w/proj'' Default,
           SpinnerSuccess ''Successfully migrated!'']
          ()"
    by (simp add: run_def script_defs demo_defs)
  then show ?thesis
    using demo_always_asks by simp
qed

text \<open>
  C2. Without \<^verbatim>\<open>--local\<close> and \<^verbatim>\<open>--remote\<close> the run asks for the mode, and the command
  should carry the mode that was chosen. Here the user chooses \<^verbatim>\<open>remote\<close>; the command
  that is run has neither \<^verbatim>\<open>--local\<close> nor \<^verbatim>\<open>--remote\<close> among its arguments, and
  the run is the same when the user chooses \<^verbatim>\<open>local\<close>.
\<close>

theorem chosen_mode_is_dropped:
  "run (answers_mode ''remote'') =
     Cont [PromptSelect ''Want to migrate locally or remotely?''
             [\<lparr>label = ''local'', val = ''local''\<rparr>, \<lparr>label = ''remote'', val = ''remote''\<rparr>]
             (Some ''local''),
           PromptConfirm ''Want to create a new migration?'' False,
           ConsoleLog ''Found SQL migration files (sorted by date):'',
           PromptSelect ''Select a migration:''
             [\<lparr>label = ''NEWEST 0000_init.sql  22:13 2023-11-14'',
               val = ''/w/proj/drizzle/0000_init.sql''\<rparr>]
             (Some ''/w/proj/drizzle/0000_init.sql''),
           SpinnerStart ''Starting migration'',
           Execa ''bunx''
             [''wrangler'', ''d1'', ''execute'', ''app'', ''--env'', ''prod'',
              ''--file'', ''/w/proj/drizzle/0000_init.sql'']
             ''/w/proj'' Default,
           SpinnerSuccess ''Successfully migrated!'']
          ()
   \<and> prompt_select (answers_mode ''remote'') ''Want to migrate locally or remotely?''
         modeChoices (Some ''local'') = \<lparr>data = Some ''remote'', error = None\<rparr>
   \<and> run (answers_mode ''local'') = run (answers_mode ''remote'')"
  by (simp add: run_def script_defs demo_defs answers_mode_def)

text \<open>
  C4. With more than one database the chosen binding should be returned, by position when it
  has no identifier. Here the first of two databases has no \<^verbatim>\<open>database_id\<close>, so its row
  has the empty string as value; the user chooses that row, and the run takes the empty
  answer for a cancellation and ends with status 1. No binding is selected and no command is
  run.
\<close>

theorem binding_without_id_cancels:
  "run picks_first =
     Stop [PromptSelect ''Select a database to migrate to:''
             [\<lparr>label = ''app - undefined'', val = []\<rparr>,
              \<lparr>label = ''logs - def456'', val = ''def456''\<rparr>]
             (Some ''local''),
           ConsolaError ''Migration cancelled.'']
          (Exit 1)"
  by (simp add: run_def script_defs demo_defs picks_first_def two_databases_def)

text \<open>
  C5. With no environment in the configuration the top-level scope should be taken without a
  question. The script asks all the same, with an empty list of choices: the first event of
  the environment step is that prompt whatever it returns, and in the project at hand, where
  nothing can be chosen, the run ends there with status 1.
\<close>

theorem no_environments_still_prompts:
  "events (selectedEnvironment ((demo top_level_only)\<lparr>prompt_select := (\<lambda>msg options initial. r)\<rparr>)
             top_level_only) =
     PromptSelect ''Select an environment:'' [] None
       # (if cancelled r then [ConsolaError ''Migration cancelled.''] else [])
   \<and> run (demo top_level_only) =
       Stop [PromptSelect ''Select an environment:'' [] None,
             ConsolaError ''Migration cancelled.'']
            (Exit 1)"
  by (simp add: run_def script_defs demo_defs top_level_only_def)

text \<open>
  C6. A scope without databases should end the run with a message and a non-zero status, also
  when the collection is absent. Here \<^verbatim>\<open>prod\<close> has no \<^verbatim>\<open>d1_databases\<close>: the run
  ends with an uncaught \<^verbatim>\<open>TypeError\<close> and has printed nothing.
\<close>

theorem absent_bindings_uncaught:
  "run (demo no_bindings) = Stop [] Uncaught_TypeError"
  by (simp add: run_def script_defs demo_defs no_bindings_def)

section \<open>The order of the migrations\<close>

lemma insertSorted_newest_first:
  "insertSorted (\<lambda>a b. mtime b - mtime a) x ys = insort_key (\<lambda>f. - mtime f) x ys"
  by (induction ys) simp_all

lemma array_sort_newest_first:
  "array_sort (\<lambda>a b. mtime b - mtime a) xs = sort_key (\<lambda>f. - mtime f) xs"
  by (induction xs) (simp_all add: array_sort_def insertSorted_newest_first)

lemma newest_first_sorted:
  "sorted_wrt (\<lambda>a b. mtime b \<le> mtime a) (array_sort (\<lambda>a b. mtime b - mtime a) xs)"
proof -
  have "sorted (map (\<lambda>f. - mtime f) (sort_key (\<lambda>f. - mtime f) xs))"
    by (rule sorted_sort_key)
  then show ?thesis
    by (simp add: array_sort_newest_first sorted_map)
qed

lemma newest_first_stable:
  "filter (\<lambda>f. mtime f = t) (array_sort (\<lambda>a b. mtime b - mtime a) xs)
   = filter (\<lambda>f. mtime f = t) xs"
  using sort_key_stable [of "\<lambda>f. - mtime f" "- t" xs]
  by (simp add: array_sort_newest_first)

lemma newest_first_mset:
  "mset (array_sort (\<lambda>a b. mtime b - mtime a) xs) = mset xs"
  by (simp add: array_sort_newest_first)

lemma newer_precedes:
  assumes "sorted_wrt (\<lambda>a b. mtime b \<le> mtime a) xs"
      and "i < length xs" and "j < length xs" and "mtime (xs ! j) < mtime (xs ! i)"
  shows "i < j"
proof (rule ccontr)
  assume "\<not> i < j"
  then have "j < i \<or> j = i" by arith
  then show False
  proof
    assume "j < i"
    then have "mtime (xs ! i) \<le> mtime (xs ! j)"
      using sorted_wrt_nth_less [OF assms(1) _ assms(2), of j] by simp
    with assms(4) show False by simp
  next
    assume "j = i"
    with assms(4) show False by simp
  qed
qed

lemma withStats_names:
  "withStats s fsys folder files = Inr stats \<Longrightarrow>
   map name stats = files \<and> map path stats = map (\<lambda>file. join s [folder, file]) files"
  by (induction files arbitrary: stats) (auto simp: Let_def split: sum.splits)

lemma map_snd_of_enumerate: "map (\<lambda>p. f (snd p)) (enumerate n xs) = map f xs"
  by (induction xs arbitrary: n) simp_all

lemma migrationChoices_vals: "map val (migrationChoices s xs) = map path xs"
  by (simp add: migrationChoices_def split_def o_def map_snd_of_enumerate)

lemma migrationChoices_nth:
  "i < length xs \<Longrightarrow>
   migrationChoices s xs ! i =
     \<lparr>label = (if i = 0 then magenta (pc s) ''NEWEST'' else []) @ '' '' @ name (xs ! i)
               @ ''  '' @ gray (pc s) (format s (mtime (xs ! i)) ''HH:mm yyyy-MM-dd''),
      val = path (xs ! i)\<rparr>"
  by (simp add: migrationChoices_def nth_enumerate_eq)

lemma find_first_present:
  "filter P xs \<noteq> [] \<Longrightarrow> find P xs = Some (hd (filter P xs))"
  by (induction xs) auto

text \<open>
  C7. The migrations offered for selection are the \<^verbatim>\<open>.sql\<close> files of the folder
  ordered by their time of modification, newest first: the list is non-increasing in that
  time, a file modified later than another stands before it, and files modified at the same
  time keep the order of the directory listing. The first entry, which no entry is newer
  than, carries the flag \<^verbatim>\<open>NEWEST\<close> and no other entry does, and its path is the value
  highlighted at the start.
\<close>

theorem migrations_newest_first:
  assumes listing: "readdirSync fsys (migrationsFolder s wd dcfg) = Inr allFiles"
      and some: "sqlFiles allFiles \<noteq> []"
      and stats: "withStats s fsys (migrationsFolder s wd dcfg) (sqlFiles allFiles) = Inr stats"
  shows "\<exists>ordered.
           sqlFilesWithStats s fsys (migrationsFolder s wd dcfg) (sqlFiles allFiles) = Inr ordered
         \<and> take 2 (events (selectedMigration s fsys wd dcfg)) =
             [ConsoleLog ''Found SQL migration files (sorted by date):'',
              PromptSelect (yellow (pc s) ''Select a migration:'') (migrationChoices s ordered)
                (Some (path (ordered ! 0)))]
         \<and> mset ordered = mset stats
         \<and> map name stats = sqlFiles allFiles
         \<and> sorted_wrt (\<lambda>a b. mtime b \<le> mtime a) ordered
         \<and> (\<forall>i j. i < length ordered \<and> j < length ordered
                  \<and> mtime (ordered ! j) < mtime (ordered ! i) \<longrightarrow> i < j)
         \<and> (\<forall>t. filter (\<lambda>f. mtime f = t) ordered = filter (\<lambda>f. mtime f = t) stats)
         \<and> ordered \<noteq> []
         \<and> (\<forall>f \<in> set ordered. mtime f \<le> mtime (ordered ! 0))
         \<and> map val (migrationChoices s ordered) = map path ordered
         \<and> val (migrationChoices s ordered ! 0) = path (ordered ! 0)
         \<and> label (migrationChoices s ordered ! 0) =
             magenta (pc s) ''NEWEST'' @ '' '' @ name (ordered ! 0) @ ''  ''
             @ gray (pc s) (format s (mtime (ordered ! 0)) ''HH:mm yyyy-MM-dd'')
         \<and> (\<forall>i. 0 < i \<and> i < length ordered \<longrightarrow>
                label (migrationChoices s ordered ! i) =
                  '' '' @ name (ordered ! i) @ ''  ''
                  @ gray (pc s) (format s (mtime (ordered ! i)) ''HH:mm yyyy-MM-dd''))"
proof -
  define ordered where "ordered = array_sort (\<lambda>a b. mtime b - mtime a) stats"
  have run: "sqlFilesWithStats s fsys (migrationsFolder s wd dcfg) (sqlFiles allFiles) = Inr ordered"
    by (simp add: sqlFilesWithStats_def stats ordered_def)
  have names: "map name stats = sqlFiles allFiles"
    using withStats_names [OF stats] by simp
  have perm: "mset ordered = mset stats"
    by (simp add: ordered_def newest_first_mset)
  have sorted: "sorted_wrt (\<lambda>a b. mtime b \<le> mtime a) ordered"
    by (simp add: ordered_def newest_first_sorted)
  have stable: "\<forall>t. filter (\<lambda>f. mtime f = t) ordered = filter (\<lambda>f. mtime f = t) stats"
    by (simp add: ordered_def newest_first_stable)
  have "length stats = length (sqlFiles allFiles)"
    using names by (metis length_map)
  with some have "stats \<noteq> []" by auto
  with perm have nonempty: "ordered \<noteq> []" by auto
  then have pos: "0 < length ordered" by simp
  have precedes: "\<forall>i j. i < length ordered \<and> j < length ordered
                    \<and> mtime (ordered ! j) < mtime (ordered ! i) \<longrightarrow> i < j"
    using newer_precedes [OF sorted] by blast
  have newest: "\<forall>f \<in> set ordered. mtime f \<le> mtime (ordered ! 0)"
  proof
    fix f assume "f \<in> set ordered"
    then obtain k where k: "k < length ordered" "ordered ! k = f"
      by (auto simp: in_set_conv_nth)
    show "mtime f \<le> mtime (ordered ! 0)"
    proof (cases k)
      case 0 with k show ?thesis by simp
    next
      case (Suc m)
      then have "0 < k" by simp
      from sorted_wrt_nth_less [OF sorted this k(1)] k(2) show ?thesis by simp
    qed
  qed
  have at0: "at0 ordered = Some (ordered ! 0)"
    using nonempty by (cases ordered) (simp_all add: at0_def)
  have asked: "take 2 (events (selectedMigration s fsys wd dcfg)) =
             [ConsoleLog ''Found SQL migration files (sorted by date):'',
              PromptSelect (yellow (pc s) ''Select a migration:'') (migrationChoices s ordered)
                (Some (path (ordered ! 0)))]"
    using some by (simp add: selectedMigration_def listing run at0 Let_def)
  have first: "migrationChoices s ordered ! 0 =
     \<lparr>label = magenta (pc s) ''NEWEST'' @ '' '' @ name (ordered ! 0) @ ''  ''
               @ gray (pc s) (format s (mtime (ordered ! 0)) ''HH:mm yyyy-MM-dd''),
      val = path (ordered ! 0)\<rparr>"
    using migrationChoices_nth [OF pos, of s] by simp
  have others: "\<forall>i. 0 < i \<and> i < length ordered \<longrightarrow>
                label (migrationChoices s ordered ! i) =
                  '' '' @ name (ordered ! i) @ ''  ''
                  @ gray (pc s) (format s (mtime (ordered ! i)) ''HH:mm yyyy-MM-dd'')"
    by (simp add: migrationChoices_nth)
  show ?thesis
    using run asked perm names sorted precedes stable nonempty newest others
    by (intro exI [of _ ordered]) (simp add: first migrationChoices_vals)
qed

text \<open>The witness of C7: three migrations of which \<^verbatim>\<open>0001_b.sql\<close> and
  \<^verbatim>\<open>0002_c.sql\<close> are equally new and listed in this order.\<close>

theorem migrations_newest_first_witness:
  "take 2 (events (selectedMigration (demo demo_wrangler) tied_fs ''/w/proj''
                     \<lparr>out = Some ''drizzle''\<rparr>)) =
     [ConsoleLog ''Found SQL migration files (sorted by date):'',
      PromptSelect ''Select a migration:''
        [\<lparr>label = ''NEWEST 0001_b.sql  22:13 2023-11-14'', val = ''/w/proj/drizzle/0001_b.sql''\<rparr>,
         \<lparr>label = '' 0002_c.sql  22:13 2023-11-14'', val = ''/w/proj/drizzle/0002_c.sql''\<rparr>,
         \<lparr>label = '' 0000_a.sql  22:13 2023-11-14'', val = ''/w/proj/drizzle/0000_a.sql''\<rparr>]
        (Some ''/w/proj/drizzle/0001_b.sql'')]"
proof -
  let ?s = "demo demo_wrangler" and ?dcfg = "\<lparr>out = Some ''drizzle''\<rparr>"
  let ?b = "\<lparr>name = ''0001_b.sql'', path = ''/w/proj/drizzle/0001_b.sql'', mtime = 200\<rparr>"
  let ?a = "\<lparr>name = ''0000_a.sql'', path = ''/w/proj/drizzle/0000_a.sql'', mtime = 100\<rparr>"
  let ?c = "\<lparr>name = ''0002_c.sql'', path = ''/w/proj/drizzle/0002_c.sql'', mtime = 200\<rparr>"
  have folder: "migrationsFolder ?s ''/w/proj'' ?dcfg = ''/w/proj/drizzle''"
    by (simp add: migrationsFolder_def demo_defs)
  have listing: "readdirSync tied_fs (migrationsFolder ?s ''/w/proj'' ?dcfg)
                 = Inr [''0001_b.sql'', ''0000_a.sql'', ''notes.txt'', ''0002_c.sql'']"
    by (simp add: folder) (simp add: tied_fs_def demo_defs)
  have sql: "sqlFiles [''0001_b.sql'', ''0000_a.sql'', ''notes.txt'', ''0002_c.sql'']
             = [''0001_b.sql'', ''0000_a.sql'', ''0002_c.sql'']"
    by (simp add: sqlFiles_def endsWith_def)
  then have some: "sqlFiles [''0001_b.sql'', ''0000_a.sql'', ''notes.txt'', ''0002_c.sql''] \<noteq> []"
    by simp
  have stats: "withStats ?s tied_fs (migrationsFolder ?s ''/w/proj'' ?dcfg)
                 (sqlFiles [''0001_b.sql'', ''0000_a.sql'', ''notes.txt'', ''0002_c.sql''])
               = Inr [?b, ?a, ?c]"
    by (simp add: folder sql) (simp add: tied_fs_def demo_defs)
  from migrations_newest_first [OF listing some stats]
  obtain ordered where
    sorted: "sqlFilesWithStats ?s tied_fs (migrationsFolder ?s ''/w/proj'' ?dcfg)
               (sqlFiles [''0001_b.sql'', ''0000_a.sql'', ''notes.txt'', ''0002_c.sql''])
             = Inr ordered"
    and asked: "take 2 (events (selectedMigration ?s tied_fs ''/w/proj'' ?dcfg)) =
             [ConsoleLog ''Found SQL migration files (sorted by date):'',
              PromptSelect (yellow (pc ?s) ''Select a migration:'') (migrationChoices ?s ordered)
                (Some (path (ordered ! 0)))]"
    by blast
  have "ordered = [?b, ?c, ?a]"
    using sorted by (simp add: sqlFilesWithStats_def stats array_sort_def)
  with asked show ?thesis
    by (simp add: migrationChoices_def demo_def demo_colors_def)
qed

section \<open>Locating the configuration files\<close>

text \<open>
  C8. When more than one of the candidate names exists in the working directory, the locator
  warns, naming the files found, and goes on with the first existing candidate in the order
  of the list (\<^verbatim>\<open>wrangler.toml\<close>, \<^verbatim>\<open>wrangler.json\<close>, \<^verbatim>\<open>wrangler.jsonc\<close>). When
  none exists it ends the run with status 1 after naming the candidates it expected. What a
  directory listing returns plays no part. The same holds for the locator of the drizzle
  configuration.
\<close>

theorem config_locator_priority:
  "(1 < length (filter (\<lambda>c. existsSync (fs s) (join s [wd, c])) wranglerConfigs) \<longrightarrow>
      (\<exists>first. find (\<lambda>c. existsSync (fs s) (join s [wd, c])) wranglerConfigs = Some first
         \<and> configPath s wd =
             Cont [ConsoleWarn (''Warning: Multiple wrangler config files found: ''
                      @ array_join '', ''
                          (filter (\<lambda>c. existsSync (fs s) (join s [wd, c])) wranglerConfigs)),
                   ConsoleLog (''Using: '' @ first)]
                  (join s [wd, first])))
   \<and> (filter (\<lambda>c. existsSync (fs s) (join s [wd, c])) wranglerConfigs = [] \<longrightarrow>
        configPath s wd =
          Stop [ConsoleError (''Error: No wrangler configuration file found in '' @ quoted wd),
                ConsoleError ''Expected one of: wrangler.toml, wrangler.json, wrangler.jsonc'']
               (Exit 1))
   \<and> configPath (s\<lparr>fs := (fs s)\<lparr>readdirSync := listing\<rparr>\<rparr>) wd = configPath s wd
   \<and> (1 < length (filter (\<lambda>c. existsSync (fs s) (join s [wd, c])) drizzleConfigs) \<longrightarrow>
      (\<exists>first. find (\<lambda>c. existsSync (fs s) (join s [wd, c])) drizzleConfigs = Some first
         \<and> drizzleConfigPath s wd =
             Cont [ConsoleWarn (''Warning: Multiple drizzle config files found: ''
                      @ array_join '', ''
                          (filter (\<lambda>c. existsSync (fs s) (join s [wd, c])) drizzleConfigs)),
                   ConsoleLog (''Using: '' @ first)]
                  (join s [wd, first])))
   \<and> (filter (\<lambda>c. existsSync (fs s) (join s [wd, c])) drizzleConfigs = [] \<longrightarrow>
        drizzleConfigPath s wd =
          Stop [ConsoleError (''Error: No drizzle configuration file found in '' @ quoted wd),
                ConsoleError ''Expected one of: drizzle.config.ts, drizzle.config.js'']
               (Exit 1))
   \<and> drizzleConfigPath (s\<lparr>fs := (fs s)\<lparr>readdirSync := listing\<rparr>\<rparr>) wd = drizzleConfigPath s wd"
proof -
  let ?P = "\<lambda>c. existsSync (fs s) (join s [wd, c])"
  have many: "1 < length (filter ?P cs) \<Longrightarrow>
      find ?P cs = Some (hd (filter ?P cs)) \<and> filter ?P cs ! 0 = hd (filter ?P cs)
      \<and> filter ?P cs \<noteq> [] \<and> at0 (filter ?P cs) = Some (hd (filter ?P cs))" for cs
    using find_first_present [of ?P cs]
    by (cases "filter ?P cs") (simp_all add: at0_def)
  have w1: "1 < length (filter ?P wranglerConfigs) \<Longrightarrow>
      configPath s wd =
             Cont [ConsoleWarn (''Warning: Multiple wrangler config files found: ''
                      @ array_join '', '' (filter ?P wranglerConfigs)),
                   ConsoleLog (''Using: '' @ hd (filter ?P wranglerConfigs))]
                  (join s [wd, hd (filter ?P wranglerConfigs)])"
    using many [of wranglerConfigs] by (simp add: configPath_def foundConfigs_def Let_def)
  have w0: "filter ?P wranglerConfigs = [] \<Longrightarrow>
        configPath s wd =
          Stop [ConsoleError (''Error: No wrangler configuration file found in '' @ quoted wd),
                ConsoleError ''Expected one of: wrangler.toml, wrangler.json, wrangler.jsonc'']
               (Exit 1)"
    by (simp add: configPath_def foundConfigs_def Let_def) (simp add: wranglerConfigs_def)
  have d1: "1 < length (filter ?P drizzleConfigs) \<Longrightarrow>
      drizzleConfigPath s wd =
             Cont [ConsoleWarn (''Warning: Multiple drizzle config files found: ''
                      @ array_join '', '' (filter ?P drizzleConfigs)),
                   ConsoleLog (''Using: '' @ hd (filter ?P drizzleConfigs))]
                  (join s [wd, hd (filter ?P drizzleConfigs)])"
    using many [of drizzleConfigs] by (simp add: drizzleConfigPath_def foundDrizzleConfig_def Let_def)
  have d0: "filter ?P drizzleConfigs = [] \<Longrightarrow>
        drizzleConfigPath s wd =
          Stop [ConsoleError (''Error: No drizzle configuration file found in '' @ quoted wd),
                ConsoleError ''Expected one of: drizzle.config.ts, drizzle.config.js'']
               (Exit 1)"
    by (simp add: drizzleConfigPath_def foundDrizzleConfig_def Let_def) (simp add: drizzleConfigs_def)
  have wl: "configPath (s\<lparr>fs := (fs s)\<lparr>readdirSync := listing\<rparr>\<rparr>) wd = configPath s wd"
    by (simp add: configPath_def foundConfigs_def Let_def)
  have dl: "drizzleConfigPath (s\<lparr>fs := (fs s)\<lparr>readdirSync := listing\<rparr>\<rparr>) wd = drizzleConfigPath s wd"
    by (simp add: drizzleConfigPath_def foundDrizzleConfig_def Let_def)
  show ?thesis
    using many [of wranglerConfigs] many [of drizzleConfigs] w1 w0 d1 d0 wl dl by simp
qed

text \<open>The witness of C8: \<^verbatim>\<open>wrangler.json\<close> and \<^verbatim>\<open>wrangler.jsonc\<close> both exist, and a
  directory without any drizzle configuration.\<close>

theorem config_locator_priority_witness:
  "configPath both_json ''/w/proj'' =
     Cont [ConsoleWarn ''Warning: Multiple wrangler config files found: wrangler.json, wrangler.jsonc'',
           ConsoleLog ''Using: wrangler.json'']
          ''/w/proj/wrangler.json''
   \<and> drizzleConfigPath both_json ''/w/elsewhere'' =
       Stop [ConsoleError (''Error: No drizzle configuration file found in '' @ quoted ''/w/elsewhere''),
             ConsoleError ''Expected one of: drizzle.config.ts, drizzle.config.js'']
            (Exit 1)"
proof -
  let ?here = "\<lambda>c. existsSync (fs both_json) (join both_json [''/w/proj'', c])"
  let ?there = "\<lambda>c. existsSync (fs both_json) (join both_json [''/w/elsewhere'', c])"
  have found: "filter ?here wranglerConfigs = [''wrangler.json'', ''wrangler.jsonc'']"
    by (simp add: both_json_def demo_defs wranglerConfigs_def)
  have first: "find ?here wranglerConfigs = Some ''wrangler.json''"
    by (simp add: both_json_def demo_defs wranglerConfigs_def)
  have joined: "join both_json [''/w/proj'', ''wrangler.json''] = ''/w/proj/wrangler.json''"
    by (simp add: both_json_def demo_defs)
  have none: "filter ?there drizzleConfigs = []"
    by (simp add: both_json_def demo_defs drizzleConfigs_def)
  from config_locator_priority [of both_json "''/w/proj''" "\<lambda>p. Inr []"] found first joined
  have here: "configPath both_json ''/w/proj'' =
     Cont [ConsoleWarn ''Warning: Multiple wrangler config files found: wrangler.json, wrangler.jsonc'',
           ConsoleLog ''Using: wrangler.json'']
          ''/w/proj/wrangler.json''"
    by simp
  from config_locator_priority [of both_json "''/w/elsewhere''" "\<lambda>p. Inr []"] none
  have there: "drizzleConfigPath both_json ''/w/elsewhere'' =
       Stop [ConsoleError (''Error: No drizzle configuration file found in '' @ quoted ''/w/elsewhere''),
             ConsoleError ''Expected one of: drizzle.config.ts, drizzle.config.js'']
            (Exit 1)"
    by simp
  from here there show ?thesis by simp
qed

section \<open>A folder without migrations\<close>

text \<open>
  C9. If the migrations folder exists and none of its entries ends in \<^verbatim>\<open>.sql\<close>, the run
  goes on: it warns, asks for no migration, and runs the command with an argument list that
  ends in \<^verbatim>\<open>--file\<close>, the empty path having been filtered out.
\<close>

theorem no_sql_files_still_executes:
  assumes folder: "foundDrizzleMigrationsFolder s fsys wd dcfg"
      and listing: "readdirSync fsys (migrationsFolder s wd dcfg) = Inr allFiles"
      and none: "\<forall>file \<in> set allFiles. \<not> endsWith file ''.sql''"
  shows "selectedMigration s fsys wd dcfg =
           Cont [ConsolaWarn ''No SQL migration files found in the migrations folder.''] []
       \<and> events (andThen (locatedMigrationsFolder s fsys wd dcfg) (\<lambda>_.
                  andThen (selectedMigration s fsys wd dcfg) (\<lambda>selMigration.
                  migrate s fsys wd selDb selEnv selMigration))) =
           [ConsolaWarn ''No SQL migration files found in the migrations folder.'',
            SpinnerStart ''Starting migration'',
            Execa ''bunx'' (migrationParams (opts s) selDb selEnv []) wd Default,
            (case execa s ''bunx'' (migrationParams (opts s) selDb selEnv []) wd Default fsys of
               Inr _ \<Rightarrow> SpinnerSuccess ''Successfully migrated!''
             | Inl e \<Rightarrow> ConsolaErrorWith ''Migration cancelled: '' e)]
       \<and> (\<exists>front. migrationParams (opts s) selDb selEnv [] = front @ [''--file''])"
proof -
  have empty: "sqlFiles allFiles = []"
    using none by (simp add: sqlFiles_def filter_empty_conv)
  have sel: "selectedMigration s fsys wd dcfg =
           Cont [ConsolaWarn ''No SQL migration files found in the migrations folder.''] []"
    by (simp add: selectedMigration_def listing empty)
  have loc: "locatedMigrationsFolder s fsys wd dcfg = Cont [] ()"
    using folder by (simp add: locatedMigrationsFolder_def)
  have ev: "events (andThen (locatedMigrationsFolder s fsys wd dcfg) (\<lambda>_.
                  andThen (selectedMigration s fsys wd dcfg) (\<lambda>selMigration.
                  migrate s fsys wd selDb selEnv selMigration))) =
           [ConsolaWarn ''No SQL migration files found in the migrations folder.'',
            SpinnerStart ''Starting migration'',
            Execa ''bunx'' (migrationParams (opts s) selDb selEnv []) wd Default,
            (case execa s ''bunx'' (migrationParams (opts s) selDb selEnv []) wd Default fsys of
               Inr _ \<Rightarrow> SpinnerSuccess ''Successfully migrated!''
             | Inl e \<Rightarrow> ConsolaErrorWith ''Migration cancelled: '' e)]"
    by (simp add: sel loc migrate_def Let_def split: sum.splits)
  have params: "\<exists>front. migrationParams (opts s) selDb selEnv [] = front @ [''--file'']"
    by (simp add: migrationParams_def)
  from sel ev params show ?thesis by simp
qed

text \<open>The witness of C9: a migrations folder that holds \<^verbatim>\<open>meta\<close> and
  \<^verbatim>\<open>notes.txt\<close> only.\<close>

theorem no_sql_files_still_executes_witness:
  "events (andThen (locatedMigrationsFolder (demo demo_wrangler) no_sql ''/w/proj'' \<lparr>out = Some ''drizzle''\<rparr>) (\<lambda>_.
           andThen (selectedMigration (demo demo_wrangler) no_sql ''/w/proj'' \<lparr>out = Some ''drizzle''\<rparr>) (\<lambda>selMigration.
           migrate (demo demo_wrangler) no_sql ''/w/proj'' (Some demo_database) (Some ''prod'') selMigration))) =
     [ConsolaWarn ''No SQL migration files found in the migrations folder.'',
      SpinnerStart ''Starting migration'',
      Execa ''bunx'' [''wrangler'', ''d1'', ''execute'', ''app'', ''--remote'', ''--env'', ''prod'', ''--file'']
        ''/w/proj'' Default,
      SpinnerSuccess ''Successfully migrated!'']"
proof -
  have folder: "foundDrizzleMigrationsFolder (demo demo_wrangler) no_sql ''/w/proj'' \<lparr>out = Some ''drizzle''\<rparr>"
    by (simp add: foundDrizzleMigrationsFolder_def migrationsFolder_def no_sql_def demo_defs)
  have listing: "readdirSync no_sql (migrationsFolder (demo demo_wrangler) ''/w/proj'' \<lparr>out = Some ''drizzle''\<rparr>)
                 = Inr [''meta'', ''notes.txt'']"
    by (simp add: migrationsFolder_def no_sql_def demo_defs)
  have none: "\<forall>file \<in> set [''meta'', ''notes.txt'']. \<not> endsWith file ''.sql''"
    by (simp add: endsWith_def)
  have params: "migrationParams (opts (demo demo_wrangler)) (Some demo_database) (Some ''prod'') []
                = [''wrangler'', ''d1'', ''execute'', ''app'', ''--remote'', ''--env'', ''prod'', ''--file'']"
    by (simp add: migrationParams_def truthy_def demo_defs)
  have ok: "execa (demo demo_wrangler) = (\<lambda>file args dir io fsys. Inr fsys)"
    by (simp add: demo_def)
  note at_demo =
    no_sql_files_still_executes [OF folder listing none, of "Some demo_database" "Some ''prod''"]
  from at_demo [THEN conjunct2, THEN conjunct1] show ?thesis
    by (simp add: params ok)
qed

section \<open>The target resolver on singletons and on identifiers\<close>

text \<open>One environment is selected without a question.\<close>

lemma single_environment_auto_selected:
  "environments cfg = [e] \<Longrightarrow> selectedEnvironment s cfg = Cont [] (Some e)"
  by (simp add: selectedEnvironment_def)

text \<open>One database is selected without a question, and an empty list of databases ends the
  run with the message and status 1.\<close>

lemma single_database_auto_selected:
  "databases cfg selEnv = Some [db] \<Longrightarrow> selectedDatabase s cfg selEnv = Cont [] (Some db)"
  by (simp add: selectedDatabase_def)

lemma empty_databases_fatal:
  "databases cfg selEnv = Some [] \<Longrightarrow>
   selectedDatabase s cfg selEnv =
     Stop [ConsoleError ''No cloudflare d1 databases found/configured.''] (Exit 1)"
  by (simp add: selectedDatabase_def)

text \<open>A database that comes out of the prompt is one of the list, and its identifier is the
  answer.\<close>

lemma chosen_database_has_chosen_id:
  assumes "databases cfg selEnv = Some dbs" and "1 < length dbs"
      and "selectedDatabase s cfg selEnv = Cont es (Some db)"
  shows "db \<in> set dbs
       \<and> database_id db =
           data (prompt_select s (yellow (pc s) ''Select a database to migrate to:'')
                   (dbChoices dbs) (Some ''local''))"
proof -
  let ?r = "prompt_select s (yellow (pc s) ''Select a database to migrate to:'')
              (dbChoices dbs) (Some ''local'')"
  from assms have "find (\<lambda>db. database_id db = data ?r) dbs = Some db"
    by (simp add: selectedDatabase_def Let_def split: if_splits)
  then show ?thesis
    by (auto simp: find_Some_iff)
qed

text \<open>A flag of the command line reaches the command.\<close>

lemma flags_reach_the_command:
  "local flags \<Longrightarrow> ''--local'' \<in> set (migrationParams flags selDb selEnv selMigration)"
  "remote flags \<Longrightarrow> ''--remote'' \<in> set (migrationParams flags selDb selEnv selMigration)"
  by (simp_all add: migrationParams_def)

text \<open>Where the target resolver leaves the path it is meant to take: without environments
  it asks with nothing to choose from, an absent list of databases is read all the same, and
  an empty answer to the question about the database counts as a cancellation.\<close>

lemma no_environment_asks:
  "environments cfg = [] \<Longrightarrow>
   \<exists>rest. events (selectedEnvironment s cfg) =
     PromptSelect (yellow (pc s) ''Select an environment:'') [] None # rest"
  by (simp add: selectedEnvironment_def envChoices_def at0_def Let_def)

lemma absent_databases_throw:
  "databases cfg selEnv = None \<Longrightarrow> selectedDatabase s cfg selEnv = Stop [] Uncaught_TypeError"
  by (simp add: selectedDatabase_def)

lemma empty_answer_cancels:
  assumes "databases cfg selEnv = Some dbs" and "1 < length dbs"
      and "data (prompt_select s (yellow (pc s) ''Select a database to migrate to:'')
                   (dbChoices dbs) (Some ''local'')) = Some []"
  shows "selectedDatabase s cfg selEnv =
           Stop [PromptSelect (yellow (pc s) ''Select a database to migrate to:'')
                   (dbChoices dbs) (Some ''local''),
                 ConsolaError ''Migration cancelled.'']
                (Exit 1)"
  using assms by (auto simp: selectedDatabase_def cancelled_def falsy_def Let_def)

lemma absent_id_has_empty_value:
  "i < length dbs \<Longrightarrow> database_id (dbs ! i) = None \<Longrightarrow> val (dbChoices dbs ! i) = []"
  by (simp add: dbChoices_def)

text \<open>Without a flag of the command line the command has no argument for the mode, whatever
  was answered.\<close>

lemma no_flag_no_mode_argument:
  "\<not> local flags \<Longrightarrow> \<not> remote flags \<Longrightarrow>
   migrationParams flags selDb selEnv selMigration =
     filter (\<lambda>prop. prop \<noteq> [])
       ([''wrangler'', ''d1'', ''execute'',
         (case selDb of Some db \<Rightarrow> database_name db | None \<Rightarrow> [])]
        @ (if truthy selEnv then [''--env'', the selEnv] else [])
        @ [''--file'', selMigration])"
  by (simp add: migrationParams_def)

end
